theory Spec2Isabelle
  imports Main "HOL-Library.Sublist"
begin

section \<open>Python values\<close>

text \<open>
  The gateway is a Flask application (\<^verbatim>\<open>backend/app.py\<close>) with four providers
  (\<^verbatim>\<open>llm/llm_mock.py\<close>, \<^verbatim>\<open>llm/llm_rag.py\<close>, \<^verbatim>\<open>llm/llm_tinyllama.py\<close>,
  \<^verbatim>\<open>llm/llm_llama3_1_8b.py\<close>). Python strings are modelled as \<^typ>\<open>string\<close>, a
  character standing for its code point; what
  \<^verbatim>\<open>request.json\<close> and \<^verbatim>\<open>json.loads\<close> deliver is a value of type \<open>json\<close>. The code
  observes a number only through its truth value and its type, so numbers are integers.
  The two exceptions that the code can raise on such values and that no handler of the
  repository catches are \<open>AttributeError\<close> and \<open>TypeError\<close>.
\<close>

datatype py_exception = AttributeError | TypeError

datatype json =
    JNull
  | JBool bool
  | JNum int
  | JStr string
  | JArr "json list"
  | JObj "(string \<times> json) list"

text \<open>\<^verbatim>\<open>d.get(k, dflt)\<close> on a dictionary.\<close>

definition dict_get :: "(string \<times> json) list \<Rightarrow> string \<Rightarrow> json \<Rightarrow> json" where
  "dict_get d k dflt = (case map_of d k of None \<Rightarrow> dflt | Some v \<Rightarrow> v)"

text \<open>\<^verbatim>\<open>x.get(k, dflt)\<close> on any value: only a dictionary has the method.\<close>

fun json_get :: "json \<Rightarrow> string \<Rightarrow> json \<Rightarrow> py_exception + json" where
  "json_get (JObj d) k dflt = Inr (dict_get d k dflt)"
| "json_get JNull k dflt = Inl AttributeError"
| "json_get (JBool b) k dflt = Inl AttributeError"
| "json_get (JNum n) k dflt = Inl AttributeError"
| "json_get (JStr s) k dflt = Inl AttributeError"
| "json_get (JArr xs) k dflt = Inl AttributeError"

text \<open>The values a \<^verbatim>\<open>for\<close> loop draws from a value: the elements of a list, the keys of
  a dictionary, the characters of a string; anything else is not iterable.\<close>

fun iterate :: "json \<Rightarrow> py_exception + json list" where
  "iterate (JArr xs) = Inr xs"
| "iterate (JObj d) = Inr (map (\<lambda>kv. JStr (fst kv)) d)"
| "iterate (JStr s) = Inr (map (\<lambda>c. JStr [c]) s)"
| "iterate JNull = Inl TypeError"
| "iterate (JBool b) = Inl TypeError"
| "iterate (JNum n) = Inl TypeError"

text \<open>The truth value of \<^verbatim>\<open>if x:\<close>.\<close>

fun truthy :: "json \<Rightarrow> bool" where
  "truthy JNull = False"
| "truthy (JBool b) = b"
| "truthy (JNum n) = (n \<noteq> 0)"
| "truthy (JStr s) = (s \<noteq> [])"
| "truthy (JArr xs) = (xs \<noteq> [])"
| "truthy (JObj d) = (d \<noteq> [])"

section \<open>String operations\<close>

text \<open>
  A character is a code point below 256. \<^verbatim>\<open>str.isspace\<close> holds of exactly twelve of
  them: tab, line feed, vertical tab, form feed, carriage return, the four separators
  U+001C to U+001F, space, next line (U+0085) and no-break space (U+00A0). These are the
  characters that \<^verbatim>\<open>str.strip()\<close> removes and at which \<^verbatim>\<open>str.split()\<close> separates.
\<close>

definition isspace :: "char \<Rightarrow> bool" where
  "isspace c = (c \<in> set [CHR 0x09, CHR 0x0A, CHR 0x0B, CHR 0x0C, CHR 0x0D,
                           CHR 0x1C, CHR 0x1D, CHR 0x1E, CHR 0x1F, CHR 0x20,
                           CHR 0x85, CHR 0xA0])"

text \<open>\<^verbatim>\<open>s.strip()\<close>.\<close>

definition strip :: "string \<Rightarrow> string" where
  "strip s = rev (dropWhile isspace (rev (dropWhile isspace s)))"

text \<open>\<^verbatim>\<open>s.split()\<close>: the maximal runs of non-whitespace characters, in order.
  \<open>split_from cur s\<close> carries the run read so far.\<close>

fun split_from :: "string \<Rightarrow> string \<Rightarrow> string list" where
  "split_from cur [] = (if cur = [] then [] else [cur])"
| "split_from cur (c # cs) =
     (if isspace c then (if cur = [] then split_from [] cs else cur # split_from [] cs)
      else split_from (cur @ [c]) cs)"

definition split_ws :: "string \<Rightarrow> string list" where
  "split_ws s = split_from [] s"

text \<open>\<^verbatim>\<open>sep in text\<close> for two strings: \<open>sep\<close> occurs in \<open>text\<close> as a substring.\<close>

fun str_contains :: "string \<Rightarrow> string \<Rightarrow> bool" where
  "str_contains sep [] = (sep = [])"
| "str_contains sep (c # cs) = (prefix sep (c # cs) \<or> str_contains sep cs)"

text \<open>\<^verbatim>\<open>text.split(sep)[0]\<close> for a non-empty \<open>sep\<close>: the text before the first
  occurrence of \<open>sep\<close>, or all of it when there is none.\<close>

fun split_first :: "string \<Rightarrow> string \<Rightarrow> string" where
  "split_first sep [] = []"
| "split_first sep (c # cs) = (if prefix sep (c # cs) then [] else c # split_first sep cs)"

section \<open>Providers\<close>

text \<open>
  What a provider's generator does when it is run to its end: the fragments it yields, in
  order, and whether it then ends normally (by falling off the end or by \<^verbatim>\<open>return\<close>) or
  with an exception that nothing catches.
\<close>

datatype outcome = Exhausted | Raised py_exception

text \<open>
  The response of the backend service to the one streaming HTTP request of a call of
  \<^verbatim>\<open>stream\<close>: \<^verbatim>\<open>requests.post\<close> raises a \<^verbatim>\<open>RequestException\<close> (no connection),
  \<^verbatim>\<open>raise_for_status\<close> raises one (non-success status), or the body delivers items
  (lines for \<^verbatim>\<open>iter_lines\<close>, windows for \<^verbatim>\<open>iter_content\<close>) and then ends, normally or
  with a \<^verbatim>\<open>RequestException\<close> raised by the iterator. An exception is represented by its
  description, \<^verbatim>\<open>str(e)\<close>.
\<close>

datatype upstream =
    PostFails string
  | StatusFails string
  | Body "string list" "string option"

subsection \<open>The mock provider (\<^verbatim>\<open>MockLLM.stream\<close>)\<close>

definition fake_answer :: "string \<Rightarrow> string" where
  "fake_answer prompt =
     ''[Mock] You said: '' @ prompt @ [CHR 0x0A] @ ''This is a mock response.''"

definition mock_stream :: "string \<Rightarrow> string list \<times> outcome" where
  "mock_stream prompt = (map (\<lambda>token. token @ '' '') (split_ws (fake_answer prompt)), Exhausted)"

subsection \<open>The retrieval-augmented provider (\<^verbatim>\<open>RagLLM.stream\<close>)\<close>

text \<open>The loop over \<^verbatim>\<open>response.iter_content\<close>: empty windows are skipped.\<close>

fun rag_chunks :: "string list \<Rightarrow> string list" where
  "rag_chunks [] = []"
| "rag_chunks (chunk_bytes # rest) =
     (if chunk_bytes = [] then rag_chunks rest else chunk_bytes # rag_chunks rest)"

text \<open>The fragment yielded by the handler of \<^verbatim>\<open>requests.RequestException\<close>.\<close>

definition rag_error_fragment :: "string \<Rightarrow> string" where
  "rag_error_fragment e = ''[Error fetching RAG response: '' @ e @ '']''"

fun rag_stream :: "upstream \<Rightarrow> string list \<times> outcome" where
  "rag_stream (PostFails e) = ([rag_error_fragment e], Exhausted)"
| "rag_stream (StatusFails e) = ([rag_error_fragment e], Exhausted)"
| "rag_stream (Body chunks None) = (rag_chunks chunks, Exhausted)"
| "rag_stream (Body chunks (Some e)) = (rag_chunks chunks @ [rag_error_fragment e], Exhausted)"

subsection \<open>The local-model providers (\<^verbatim>\<open>TinyLlamaLLM.stream\<close>, \<^verbatim>\<open>Llama3_1_8bLLM.stream\<close>)\<close>

text \<open>
  The two classes differ in their constants and prompt templates only; the body of
  \<^verbatim>\<open>stream\<close> is the same, and so is \<^verbatim>\<open>STOP_SEQUENCE\<close>.
\<close>

definition STOP_SEQUENCE :: string where
  "STOP_SEQUENCE = [CHR 0x0A]"

text \<open>How a loop body leaves: on to the next iteration, by the \<^verbatim>\<open>return\<close> of the
  generator, or by an uncaught exception.\<close>

datatype control = Continue | Return | Raise py_exception

text \<open>\<^verbatim>\<open>STOP_SEQUENCE in text\<close>, for whatever the field \<^verbatim>\<open>text\<close> holds.\<close>

fun py_in :: "string \<Rightarrow> json \<Rightarrow> py_exception + bool" where
  "py_in s (JStr t) = Inr (str_contains s t)"
| "py_in s (JArr xs) = Inr (JStr s \<in> set xs)"
| "py_in s (JObj d) = Inr (s \<in> set (map fst d))"
| "py_in s JNull = Inl TypeError"
| "py_in s (JBool b) = Inl TypeError"
| "py_in s (JNum n) = Inl TypeError"

text \<open>
  The loop \<^verbatim>\<open>for choice in ...\<close>. A truthy text that is not a string raises: in the stop
  branch \<^verbatim>\<open>text.split\<close> is missing, in the other \<^verbatim>\<open>assistant_response += text\<close> fails.
\<close>

fun process_choices :: "json list \<Rightarrow> string list \<times> control" where
  "process_choices [] = ([], Continue)"
| "process_choices (choice # rest) =
     (case json_get choice ''text'' (JStr []) of
        Inl e \<Rightarrow> ([], Raise e)
      | Inr text \<Rightarrow>
          if truthy text then
            (case py_in STOP_SEQUENCE text of
               Inl e \<Rightarrow> ([], Raise e)
             | Inr True \<Rightarrow>
                 (case text of
                    JStr t \<Rightarrow> ([split_first STOP_SEQUENCE t], Return)
                  | _ \<Rightarrow> ([], Raise AttributeError))
             | Inr False \<Rightarrow>
                 (case text of
                    JStr t \<Rightarrow> (case process_choices rest of (ys, c) \<Rightarrow> (t # ys, c))
                  | _ \<Rightarrow> ([], Raise TypeError)))
          else process_choices rest)"

text \<open>
  The loop \<^verbatim>\<open>for line in response.iter_lines(decode_unicode=True)\<close>. The parameter
  \<open>json_loads\<close> is \<^verbatim>\<open>json.loads\<close> of the standard library, \<open>None\<close> for a
  \<^verbatim>\<open>JSONDecodeError\<close> (which the code catches and skips).
\<close>

fun stream_lines :: "(string \<Rightarrow> json option) \<Rightarrow> string list \<Rightarrow> string list \<times> control" where
  "stream_lines json_loads [] = ([], Continue)"
| "stream_lines json_loads (line # rest) =
     (if line = [] \<or> strip line = ''[DONE]'' then stream_lines json_loads rest
      else if prefix ''data: '' line then
        (case json_loads (drop (length ''data: '') line) of
           None \<Rightarrow> stream_lines json_loads rest
         | Some data_json \<Rightarrow>
             (case json_get data_json ''choices'' (JArr []) of
                Inl e \<Rightarrow> ([], Raise e)
              | Inr choices \<Rightarrow>
                  (case iterate choices of
                     Inl e \<Rightarrow> ([], Raise e)
                   | Inr cs \<Rightarrow>
                       (case process_choices cs of
                          (ys, Continue) \<Rightarrow>
                            (case stream_lines json_loads rest of (zs, c) \<Rightarrow> (ys @ zs, c))
                        | (ys, Return) \<Rightarrow> (ys, Return)
                        | (ys, Raise e) \<Rightarrow> (ys, Raise e)))))
      else stream_lines json_loads rest)"

text \<open>The whole generator: a \<^verbatim>\<open>RequestException\<close> is logged and the generator ends.\<close>

fun local_stream :: "(string \<Rightarrow> json option) \<Rightarrow> upstream \<Rightarrow> string list \<times> outcome" where
  "local_stream json_loads (PostFails e) = ([], Exhausted)"
| "local_stream json_loads (StatusFails e) = ([], Exhausted)"
| "local_stream json_loads (Body lines ending) =
     (case stream_lines json_loads lines of
        (ys, Continue) \<Rightarrow> (case ending of None \<Rightarrow> (ys, Exhausted) | Some e \<Rightarrow> (ys, Exhausted))
      | (ys, Return) \<Rightarrow> (ys, Exhausted)
      | (ys, Raise e) \<Rightarrow> (ys, Raised e))"

subsection \<open>Selecting a provider (\<^verbatim>\<open>get_llm\<close>)\<close>

datatype llm = MockLLM | RagLLM | TinyLlamaLLM | Llama3_1_8bLLM

definition get_llm :: "string \<Rightarrow> llm" where
  "get_llm m =
     (if m = ''rag'' then RagLLM
      else if m = ''tinyllama'' then TinyLlamaLLM
      else if m = ''llama3_1_8b'' then Llama3_1_8bLLM
      else MockLLM)"

fun llm_stream :: "(string \<Rightarrow> json option) \<Rightarrow> llm \<Rightarrow> string \<Rightarrow> upstream \<Rightarrow> string list \<times> outcome" where
  "llm_stream json_loads MockLLM prompt up = mock_stream prompt"
| "llm_stream json_loads RagLLM prompt up = rag_stream up"
| "llm_stream json_loads TinyLlamaLLM prompt up = local_stream json_loads up"
| "llm_stream json_loads Llama3_1_8bLLM prompt up = local_stream json_loads up"

section \<open>The application (\<^verbatim>\<open>backend/app.py\<close>)\<close>

record message =
  role :: string
  content :: string

text \<open>The two module-level variables.\<close>

record app_state =
  CHAT_SESSIONS :: "string \<rightharpoonup> message list"
  LLM_MODE :: string

definition initial_state :: app_state where
  "initial_state = \<lparr>CHAT_SESSIONS = Map.empty, LLM_MODE = ''mock''\<rparr>"

text \<open>What a route returns: a JSON document, a streamed body (the fragments forwarded and
  how the generator ended), or the server error of an uncaught exception.\<close>

datatype response =
    Json json
  | Stream "string list" outcome
  | ServerError py_exception

definition get_user_messages :: "string \<Rightarrow> app_state \<Rightarrow> message list \<times> app_state" where
  "get_user_messages sid st =
     (case CHAT_SESSIONS st sid of
        None \<Rightarrow> ([], st\<lparr>CHAT_SESSIONS := (CHAT_SESSIONS st)(sid \<mapsto> [])\<rparr>)
      | Some user_messages \<Rightarrow> (user_messages, st))"

text \<open>\<^verbatim>\<open>user_messages.append(m)\<close>, where \<^verbatim>\<open>user_messages\<close> is the list stored for \<open>sid\<close>.\<close>

definition append_message :: "string \<Rightarrow> message \<Rightarrow> app_state \<Rightarrow> app_state" where
  "append_message sid m st =
     st\<lparr>CHAT_SESSIONS := (CHAT_SESSIONS st)(sid \<mapsto> fst (get_user_messages sid st) @ [m])\<rparr>"

definition set_mode :: "(string \<times> json) list \<Rightarrow> app_state \<Rightarrow> response \<times> app_state" where
  "set_mode request_json st =
     (let st' = (case dict_get request_json ''mode'' JNull of
                   JStr m \<Rightarrow>
                     if m \<in> set [''mock'', ''rag'', ''tinyllama'', ''llama3_1_8b'']
                     then st\<lparr>LLM_MODE := m\<rparr> else st
                 | _ \<Rightarrow> st)
      in (Json (JObj [(''status'', JStr ''ok''), (''mode'', JStr (LLM_MODE st'))]), st'))"

definition clear_chat :: "string \<Rightarrow> app_state \<Rightarrow> response \<times> app_state" where
  "clear_chat sid st =
     (Json (JObj [(''status'', JStr ''cleared'')]),
      st\<lparr>CHAT_SESSIONS := (CHAT_SESSIONS st)(sid \<mapsto> [])\<rparr>)"

text \<open>The loop of \<^verbatim>\<open>generate\<close>: the fragments yielded and the final \<^verbatim>\<open>response_text\<close>.\<close>

fun generate_loop :: "string \<Rightarrow> string list \<Rightarrow> string list \<times> string" where
  "generate_loop response_text [] = ([], response_text)"
| "generate_loop response_text (chunk # rest) =
     (case generate_loop (response_text @ chunk) rest of
        (yielded, final) \<Rightarrow> (chunk # yielded, final))"

text \<open>
  \<^verbatim>\<open>generate\<close> run to its end on the fragments of the provider: when the provider's
  generator raises, the exception leaves \<^verbatim>\<open>generate\<close> too, and the lines after the loop
  do not run.
\<close>

definition generate :: "string \<Rightarrow> string list \<times> outcome \<Rightarrow> app_state \<Rightarrow> response \<times> app_state" where
  "generate sid provided st =
     (case provided of (chunks, ending) \<Rightarrow>
        (case generate_loop [] chunks of (yielded, response_text) \<Rightarrow>
           (case ending of
              Exhausted \<Rightarrow>
                (Stream yielded Exhausted,
                 append_message sid \<lparr>role = ''assistant'', content = response_text\<rparr> st)
            | Raised e \<Rightarrow> (Stream yielded (Raised e), st))))"

text \<open>
  \<^verbatim>\<open>send_message\<close> for the session \<open>sid\<close>, with the streamed response consumed to its end
  before any other request is served. \<open>data\<close> is the JSON object of the request, \<open>up\<close>
  what the backend service answers if it is asked.
\<close>

definition send_message ::
  "(string \<Rightarrow> json option) \<Rightarrow> string \<Rightarrow> (string \<times> json) list \<Rightarrow> upstream \<Rightarrow> app_state
     \<Rightarrow> response \<times> app_state" where
  "send_message json_loads sid data up st =
     (case dict_get data ''prompt'' (JStr []) of
        JStr raw \<Rightarrow>
          (let prompt = strip raw in
           case get_user_messages sid st of (user_messages, st1) \<Rightarrow>
             if prompt = [] then (Json (JObj [(''status'', JStr ''empty'')]), st1)
             else
               (let st2 = append_message sid \<lparr>role = ''user'', content = prompt\<rparr> st1;
                    l = get_llm (LLM_MODE st2)
                in generate sid (llm_stream json_loads l prompt up) st2))
      | _ \<Rightarrow> (ServerError AttributeError, st))"

text \<open>Reading the conversation of a session, as \<^verbatim>\<open>get_user_messages\<close> returns it.\<close>

definition conversation :: "string \<Rightarrow> app_state \<Rightarrow> message list" where
  "conversation sid st = fst (get_user_messages sid st)"

section \<open>The session store\<close>

lemma get_user_messages_after_clear:
  "get_user_messages sid (snd (clear_chat sid st)) = ([], snd (clear_chat sid st))"
  by (simp add: get_user_messages_def clear_chat_def)

text \<open>
  Claim C9. For every session identifier and every state of the store, whatever the
  session's conversation held before, reading the conversation right after
  \<^verbatim>\<open>clear_chat\<close> for that session gives the empty conversation.
\<close>

theorem clear_chat_then_read_empty:
  "fst (get_user_messages sid (snd (clear_chat sid st))) = [] \<and>
   conversation sid (snd (clear_chat sid st)) = []"
  by (simp add: conversation_def get_user_messages_def clear_chat_def)

theorem clear_chat_then_read_empty_witness:
  "fst (get_user_messages ''s1''
     (snd (clear_chat ''s1''
        (initial_state\<lparr>CHAT_SESSIONS := [''s1'' \<mapsto> [\<lparr>role = ''user'', content = ''hi''\<rparr>]]\<rparr>)))) = []"
  using clear_chat_then_read_empty [of "''s1''"] by simp

section \<open>The mode registry\<close>

lemma set_mode_keeps_variant:
  "LLM_MODE st \<in> set [''mock'', ''rag'', ''tinyllama'', ''llama3_1_8b''] \<Longrightarrow>
   LLM_MODE (snd (set_mode request_json st)) \<in> set [''mock'', ''rag'', ''tinyllama'', ''llama3_1_8b'']"
  by (auto simp: set_mode_def Let_def split: json.splits)

lemma initial_mode_is_variant:
  "LLM_MODE initial_state \<in> set [''mock'', ''rag'', ''tinyllama'', ''llama3_1_8b'']"
  by (simp add: initial_state_def)

text \<open>
  Claim C5. Let \<open>requested\<close> be the value under \<^verbatim>\<open>"mode"\<close> in the request. If it is not one
  of the four variant names, \<^verbatim>\<open>set_mode\<close> leaves the whole state, and so the active mode,
  as it was and answers with the mode that was active before. If it is one of the four
  names, the active mode becomes that name and the answer carries it.
\<close>

theorem set_mode_variant_set:
  assumes "dict_get request_json ''mode'' JNull = requested"
  shows "(requested \<notin> JStr ` set [''mock'', ''rag'', ''tinyllama'', ''llama3_1_8b''] \<longrightarrow>
            set_mode request_json st =
              (Json (JObj [(''status'', JStr ''ok''), (''mode'', JStr (LLM_MODE st))]), st))
       \<and> (\<forall>m \<in> set [''mock'', ''rag'', ''tinyllama'', ''llama3_1_8b'']. requested = JStr m \<longrightarrow>
            set_mode request_json st =
              (Json (JObj [(''status'', JStr ''ok''), (''mode'', JStr m)]), st\<lparr>LLM_MODE := m\<rparr>))"
proof (intro conjI impI ballI)
  assume "requested \<notin> JStr ` set [''mock'', ''rag'', ''tinyllama'', ''llama3_1_8b'']"
  with assms show "set_mode request_json st =
      (Json (JObj [(''status'', JStr ''ok''), (''mode'', JStr (LLM_MODE st))]), st)"
    by (cases requested) (auto simp: set_mode_def)
next
  fix m assume "m \<in> set [''mock'', ''rag'', ''tinyllama'', ''llama3_1_8b'']" "requested = JStr m"
  with assms show "set_mode request_json st =
      (Json (JObj [(''status'', JStr ''ok''), (''mode'', JStr m)]), st\<lparr>LLM_MODE := m\<rparr>)"
    by (simp add: set_mode_def)
qed

theorem set_mode_variant_set_witness:
  "set_mode [(''mode'', JStr ''gpt4'')] initial_state =
     (Json (JObj [(''status'', JStr ''ok''), (''mode'', JStr ''mock'')]), initial_state)
   \<and> set_mode [(''mode'', JStr ''rag'')] initial_state =
     (Json (JObj [(''status'', JStr ''ok''), (''mode'', JStr ''rag'')]), initial_state\<lparr>LLM_MODE := ''rag''\<rparr>)"
proof -
  have a: "dict_get [(''mode'', JStr ''gpt4'')] ''mode'' JNull = JStr ''gpt4''"
    by (simp add: dict_get_def)
  have b: "dict_get [(''mode'', JStr ''rag'')] ''mode'' JNull = JStr ''rag''"
    by (simp add: dict_get_def)
  have c: "JStr ''gpt4'' \<notin> JStr ` set [''mock'', ''rag'', ''tinyllama'', ''llama3_1_8b'']"
    by simp
  from set_mode_variant_set [OF a, of initial_state] c
       set_mode_variant_set [OF b, of initial_state]
  show ?thesis by (simp add: initial_state_def)
qed

text \<open>
  Claim C10. Whatever the request holds, the answer of \<^verbatim>\<open>set_mode\<close> is the document with
  status \<^verbatim>\<open>"ok"\<close> and the mode that is active afterwards, so the answer to a rejected
  request has the shape of the answer to an accepted one. As the active mode is always one
  of the four variant names, the request was accepted exactly when the returned mode is
  the requested value.
\<close>

theorem set_mode_status_ok:
  "fst (set_mode request_json st) =
     Json (JObj [(''status'', JStr ''ok''),
                 (''mode'', JStr (LLM_MODE (snd (set_mode request_json st))))])
   \<and> (LLM_MODE st \<in> set [''mock'', ''rag'', ''tinyllama'', ''llama3_1_8b''] \<longrightarrow>
        (dict_get request_json ''mode'' JNull \<in> JStr ` set [''mock'', ''rag'', ''tinyllama'', ''llama3_1_8b''])
        = (JStr (LLM_MODE (snd (set_mode request_json st))) = dict_get request_json ''mode'' JNull))"
  by (cases "dict_get request_json ''mode'' JNull") (auto simp: set_mode_def Let_def)

theorem set_mode_status_ok_witness:
  "fst (set_mode [(''mode'', JStr ''gpt4'')] initial_state) =
     Json (JObj [(''status'', JStr ''ok''), (''mode'', JStr ''mock'')])
   \<and> JStr (LLM_MODE (snd (set_mode [(''mode'', JStr ''gpt4'')] initial_state))) \<noteq> JStr ''gpt4''"
  using set_mode_status_ok [of "[(''mode'', JStr ''gpt4'')]" initial_state]
  by (simp add: initial_state_def dict_get_def set_mode_def)

section \<open>The relay (\<^verbatim>\<open>generate\<close>)\<close>

lemma generate_loop_eq: "generate_loop acc chunks = (chunks, acc @ concat chunks)"
  by (induction chunks arbitrary: acc) simp_all

text \<open>
  Claim C1. For every finite sequence \<open>chunks\<close> of fragments of a provider, the loop of
  \<^verbatim>\<open>generate\<close> forwards exactly these fragments, in order, and ends with
  \<^verbatim>\<open>response_text\<close> equal to their concatenation, which is the concatenation of what it
  forwarded. At every intermediate point the same holds: one more fragment extends the
  forwarded sequence by that fragment and the accumulator by the same characters, and
  after \<open>n\<close> fragments the accumulator is the concatenation of the first \<open>n\<close> forwarded
  ones. When the provider's generator ends normally, this text is what \<^verbatim>\<open>generate\<close>
  stores as the assistant message.
\<close>

theorem generate_accumulates_forwarded:
  "generate_loop [] chunks = (chunks, concat chunks)
   \<and> snd (generate_loop [] chunks) = concat (fst (generate_loop [] chunks))
   \<and> fst (generate_loop acc (chunks @ [chunk])) = fst (generate_loop acc chunks) @ [chunk]
   \<and> snd (generate_loop acc (chunks @ [chunk])) = snd (generate_loop acc chunks) @ chunk
   \<and> snd (generate_loop [] (take n chunks)) = concat (take n (fst (generate_loop [] chunks)))
   \<and> generate sid (chunks, Exhausted) st =
       (Stream chunks Exhausted,
        append_message sid \<lparr>role = ''assistant'', content = concat chunks\<rparr> st)"
  by (simp add: generate_loop_eq generate_def)

theorem generate_accumulates_forwarded_witness:
  "generate_loop [] [''ab'', '''', ''c''] = ([''ab'', '''', ''c''], ''abc'')"
  using generate_accumulates_forwarded [of "[''ab'', '''', ''c'']"] by simp

section \<open>Blank prompts\<close>

lemma strip_empty_iff: "strip s = [] \<longleftrightarrow> (\<forall>c \<in> set s. isspace c)"
proof
  assume "strip s = []"
  then have "dropWhile isspace (rev (dropWhile isspace s)) = []"
    by (simp add: strip_def)
  then have "\<forall>c \<in> set (dropWhile isspace s). isspace c"
    by simp
  then have "dropWhile isspace s = []"
    by (metis hd_dropWhile list.set_sel(1))
  then show "\<forall>c \<in> set s. isspace c"
    by simp
next
  assume "\<forall>c \<in> set s. isspace c"
  then show "strip s = []" by (auto simp: strip_def dest: set_dropWhileD)
qed

lemma conversation_get_user_messages:
  "conversation sid (snd (get_user_messages sid st)) = conversation sid st"
  by (simp add: conversation_def get_user_messages_def split: option.splits)

text \<open>
  Claim C6. When the prompt of the request is empty or consists of whitespace only (of
  characters that \<^verbatim>\<open>str.strip()\<close> removes, the no-break space among them),
  \<^verbatim>\<open>send_message\<close> answers with the document of status \<^verbatim>\<open>"empty"\<close>, whatever the decoder
  and the backend service would do (no provider is run and nothing is streamed). The state
  after the call is the state after the read of the session's conversation at the start of
  the route (which stores an empty list for a session not seen before): the conversation
  of the session reads as before, with no message appended, the conversations of the other
  sessions and the active mode are untouched.
\<close>

theorem send_message_empty_prompt:
  assumes "dict_get data ''prompt'' (JStr []) = JStr raw" and "\<forall>c \<in> set raw. isspace c"
  shows "send_message json_loads sid data up st =
           (Json (JObj [(''status'', JStr ''empty'')]), snd (get_user_messages sid st))
       \<and> conversation sid (snd (send_message json_loads sid data up st)) = conversation sid st
       \<and> LLM_MODE (snd (send_message json_loads sid data up st)) = LLM_MODE st
       \<and> (\<forall>other. other \<noteq> sid \<longrightarrow>
            CHAT_SESSIONS (snd (send_message json_loads sid data up st)) other = CHAT_SESSIONS st other)"
proof -
  from assms(2) have e: "strip raw = []" by (simp add: strip_empty_iff)
  have r: "send_message json_loads sid data up st =
           (Json (JObj [(''status'', JStr ''empty'')]), snd (get_user_messages sid st))"
    by (simp add: send_message_def assms(1) e split: prod.splits)
  show ?thesis
    unfolding r by (simp add: conversation_get_user_messages) (simp add: get_user_messages_def split: option.splits)
qed

theorem send_message_empty_prompt_witness:
  "send_message Map.empty ''s1'' [(''prompt'', JStr [CHR 0x20, CHR 0xA0, CHR 0x09, CHR 0x85])] (Body [''ignored''] None) initial_state =
     (Json (JObj [(''status'', JStr ''empty'')]),
      initial_state\<lparr>CHAT_SESSIONS := [''s1'' \<mapsto> []]\<rparr>)
   \<and> conversation ''s1'' (snd (send_message Map.empty ''s1'' [(''prompt'', JStr [CHR 0x20, CHR 0xA0, CHR 0x09, CHR 0x85])] (Body [''ignored''] None) initial_state)) = []"
proof -
  have a: "dict_get [(''prompt'', JStr [CHR 0x20, CHR 0xA0, CHR 0x09, CHR 0x85])] ''prompt'' (JStr []) = JStr [CHR 0x20, CHR 0xA0, CHR 0x09, CHR 0x85]"
    by (simp add: dict_get_def)
  have b: "\<forall>c \<in> set [CHR 0x20, CHR 0xA0, CHR 0x09, CHR 0x85]. isspace c" by (simp add: isspace_def)
  from send_message_empty_prompt [OF a b, of Map.empty "''s1''" "Body [''ignored''] None" initial_state]
  show ?thesis by (simp add: get_user_messages_def initial_state_def conversation_def)
qed

section \<open>Request failures\<close>

text \<open>
  Claim C8. In the retrieval-augmented provider a request failure gives one diagnostic
  fragment, the text \<^verbatim>\<open>[Error fetching RAG response: e]\<close> with the description \<open>e\<close> of the
  exception, as the last fragment: alone when the connection fails or the status is not a
  success, after the fragments already yielded when the body breaks off; then the
  generator ends. The local-model providers yield nothing on the first two failures, and
  on a body that breaks off exactly what they yield when the body ends normally after the
  same lines.
\<close>

theorem request_failure_fragments:
  "rag_stream (PostFails e) = ([''[Error fetching RAG response: '' @ e @ '']''], Exhausted)
   \<and> rag_stream (StatusFails e) = ([''[Error fetching RAG response: '' @ e @ '']''], Exhausted)
   \<and> rag_stream (Body chunks (Some e)) =
       (fst (rag_stream (Body chunks None)) @ [''[Error fetching RAG response: '' @ e @ '']''], Exhausted)
   \<and> local_stream json_loads (PostFails e) = ([], Exhausted)
   \<and> local_stream json_loads (StatusFails e) = ([], Exhausted)
   \<and> local_stream json_loads (Body lines (Some e)) = local_stream json_loads (Body lines None)
   \<and> llm_stream json_loads TinyLlamaLLM prompt = local_stream json_loads
   \<and> llm_stream json_loads Llama3_1_8bLLM prompt = local_stream json_loads
   \<and> llm_stream json_loads RagLLM prompt = rag_stream"
  by (auto simp: rag_error_fragment_def fun_eq_iff split: prod.splits control.splits)

theorem request_failure_fragments_witness:
  "rag_stream (Body [''par'', '''', ''tial''] (Some ''reset'')) =
     ([''par'', ''tial'', ''[Error fetching RAG response: reset]''], Exhausted)
   \<and> local_stream Map.empty (Body [''data: x''] (Some ''reset'')) = ([], Exhausted)"
  using request_failure_fragments [of "''reset''" "[''par'', '''', ''tial'']" Map.empty "[''data: x'']"]
  by (simp add: strip_def isspace_def)

section \<open>Committing a turn (\<^verbatim>\<open>send_message\<close>)\<close>

lemma append_message_after_read:
  "append_message sid m (snd (get_user_messages sid st)) =
     st\<lparr>CHAT_SESSIONS := (CHAT_SESSIONS st)(sid \<mapsto> conversation sid st @ [m])\<rparr>"
  by (simp add: append_message_def get_user_messages_def conversation_def split: option.splits)

lemma append_message_twice:
  "append_message sid m2 (st\<lparr>CHAT_SESSIONS := (CHAT_SESSIONS st)(sid \<mapsto> ms)\<rparr>) =
     st\<lparr>CHAT_SESSIONS := (CHAT_SESSIONS st)(sid \<mapsto> ms @ [m2])\<rparr>"
  by (simp add: append_message_def get_user_messages_def)

lemma send_message_nonblank:
  assumes "dict_get data ''prompt'' (JStr []) = JStr raw" and "strip raw \<noteq> []"
  shows "send_message json_loads sid data up st =
           generate sid (llm_stream json_loads (get_llm (LLM_MODE st)) (strip raw) up)
             (st\<lparr>CHAT_SESSIONS := (CHAT_SESSIONS st)(sid \<mapsto>
                  conversation sid st @ [\<lparr>role = ''user'', content = strip raw\<rparr>])\<rparr>)"
proof -
  obtain user_messages st1 where g: "get_user_messages sid st = (user_messages, st1)"
    by (cases "get_user_messages sid st")
  then have "st1 = snd (get_user_messages sid st)" by simp
  then have a: "append_message sid \<lparr>role = ''user'', content = strip raw\<rparr> st1 =
      st\<lparr>CHAT_SESSIONS := (CHAT_SESSIONS st)(sid \<mapsto>
           conversation sid st @ [\<lparr>role = ''user'', content = strip raw\<rparr>])\<rparr>"
    by (simp only: append_message_after_read)
  show ?thesis
    using assms by (simp add: send_message_def Let_def g a)
qed

lemma send_message_exhausted:
  assumes "dict_get data ''prompt'' (JStr []) = JStr raw" and "strip raw \<noteq> []"
    and "llm_stream json_loads (get_llm (LLM_MODE st)) (strip raw) up = (chunks, Exhausted)"
  shows "send_message json_loads sid data up st =
           (Stream chunks Exhausted,
            st\<lparr>CHAT_SESSIONS := (CHAT_SESSIONS st)(sid \<mapsto>
                 conversation sid st @ [\<lparr>role = ''user'', content = strip raw\<rparr>,
                                        \<lparr>role = ''assistant'', content = concat chunks\<rparr>])\<rparr>)"
  by (simp add: send_message_nonblank [OF assms(1,2)] assms(3) generate_def generate_loop_eq
        append_message_twice)

lemma send_message_raised:
  assumes "dict_get data ''prompt'' (JStr []) = JStr raw" and "strip raw \<noteq> []"
    and "llm_stream json_loads (get_llm (LLM_MODE st)) (strip raw) up = (chunks, Raised e)"
  shows "send_message json_loads sid data up st =
           (Stream chunks (Raised e),
            st\<lparr>CHAT_SESSIONS := (CHAT_SESSIONS st)(sid \<mapsto>
                 conversation sid st @ [\<lparr>role = ''user'', content = strip raw\<rparr>])\<rparr>)"
  by (simp add: send_message_nonblank [OF assms(1,2)] assms(3) generate_def generate_loop_eq)

lemma conversation_stored:
  "conversation sid (st\<lparr>CHAT_SESSIONS := (CHAT_SESSIONS st)(sid \<mapsto> ms)\<rparr>) = ms"
  by (simp add: conversation_def get_user_messages_def)

lemma chat_sessions_initial: "CHAT_SESSIONS initial_state = Map.empty"
  by (simp add: initial_state_def)

lemma conversation_initial: "conversation sid initial_state = []"
  by (simp add: conversation_def get_user_messages_def initial_state_def)

text \<open>
  Claim C3, as amended. For a prompt that is not blank, \<^verbatim>\<open>send_message\<close> appends a user
  message whose content is the prompt with the whitespace at both ends stripped, before
  the provider is run. When the provider's generator ends normally after the fragments
  \<open>chunks\<close>, the route forwards them and appends one assistant message whose content is
  their concatenation, so the conversation is the earlier one followed by exactly these
  two messages, in this order; with no fragment at all the assistant message is appended
  with empty content. When the provider's generator raises an exception that nothing
  catches, only the user message has been appended.
\<close>

theorem send_message_commits_turn:
  assumes "dict_get data ''prompt'' (JStr []) = JStr raw" and "strip raw \<noteq> []"
  shows "(llm_stream json_loads (get_llm (LLM_MODE st)) (strip raw) up = (chunks, Exhausted) \<longrightarrow>
            send_message json_loads sid data up st =
              (Stream chunks Exhausted,
               st\<lparr>CHAT_SESSIONS := (CHAT_SESSIONS st)(sid \<mapsto>
                    conversation sid st @ [\<lparr>role = ''user'', content = strip raw\<rparr>,
                                           \<lparr>role = ''assistant'', content = concat chunks\<rparr>])\<rparr>))
       \<and> (llm_stream json_loads (get_llm (LLM_MODE st)) (strip raw) up = ([], Exhausted) \<longrightarrow>
            conversation sid (snd (send_message json_loads sid data up st)) =
              conversation sid st @ [\<lparr>role = ''user'', content = strip raw\<rparr>,
                                     \<lparr>role = ''assistant'', content = []\<rparr>])
       \<and> (llm_stream json_loads (get_llm (LLM_MODE st)) (strip raw) up = (chunks, Raised e) \<longrightarrow>
            send_message json_loads sid data up st =
              (Stream chunks (Raised e),
               st\<lparr>CHAT_SESSIONS := (CHAT_SESSIONS st)(sid \<mapsto>
                    conversation sid st @ [\<lparr>role = ''user'', content = strip raw\<rparr>])\<rparr>))"
  using send_message_exhausted [OF assms, of json_loads st up chunks sid]
    send_message_exhausted [OF assms, of json_loads st up "[]" sid]
    send_message_raised [OF assms, of json_loads st up chunks e sid]
  by (simp add: conversation_stored)


lemma mock_tokens_hi:
  "split_ws (fake_answer ''hi'') =
     [''[Mock]'', ''You'', ''said:'', ''hi'', ''This'', ''is'', ''a'', ''mock'', ''response.'']"
  by (simp add: split_ws_def fake_answer_def isspace_def)

lemma mock_stream_hi:
  "mock_stream ''hi'' =
     ([''[Mock] '', ''You '', ''said: '', ''hi '', ''This '', ''is '', ''a '', ''mock '', ''response. ''],
      Exhausted)"
  by (simp add: mock_stream_def mock_tokens_hi)

lemma strip_hi: "strip ''hi'' = ''hi''" "strip ''  hi'' = ''hi''"
  "strip [CHR 0xA0, CHR 0x20, CHR ''h'', CHR ''i'', CHR 0x85] = ''hi''"
  by (simp_all add: strip_def isspace_def)

theorem send_message_commits_turn_witness:
  "send_message Map.empty ''s1'' [(''prompt'', JStr [CHR 0xA0, CHR 0x20, CHR ''h'', CHR ''i'', CHR 0x85])] (Body [] None) initial_state =
     (Stream [''[Mock] '', ''You '', ''said: '', ''hi '', ''This '', ''is '', ''a '', ''mock '', ''response. ''] Exhausted,
      initial_state\<lparr>CHAT_SESSIONS := [''s1'' \<mapsto>
         [\<lparr>role = ''user'', content = ''hi''\<rparr>,
          \<lparr>role = ''assistant'', content = ''[Mock] You said: hi This is a mock response. ''\<rparr>]]\<rparr>)
   \<and> send_message (map_of [(''[]'', JArr [])]) ''s1'' [(''prompt'', JStr ''hi'')] (Body [''data: []''] None)
       (initial_state\<lparr>LLM_MODE := ''tinyllama''\<rparr>) =
     (Stream [] (Raised AttributeError),
      initial_state\<lparr>LLM_MODE := ''tinyllama'',
                     CHAT_SESSIONS := [''s1'' \<mapsto> [\<lparr>role = ''user'', content = ''hi''\<rparr>]]\<rparr>)
   \<and> conversation ''s1''
       (snd (send_message Map.empty ''s1'' [(''prompt'', JStr ''hi'')] (Body [] None)
          (initial_state\<lparr>LLM_MODE := ''rag''\<rparr>))) =
     [\<lparr>role = ''user'', content = ''hi''\<rparr>, \<lparr>role = ''assistant'', content = []\<rparr>]"
proof -
  have a: "dict_get [(''prompt'', JStr [CHR 0xA0, CHR 0x20, CHR ''h'', CHR ''i'', CHR 0x85])] ''prompt'' (JStr []) = JStr [CHR 0xA0, CHR 0x20, CHR ''h'', CHR ''i'', CHR 0x85]"
    by (simp add: dict_get_def)
  have b: "strip [CHR 0xA0, CHR 0x20, CHR ''h'', CHR ''i'', CHR 0x85] \<noteq> []" by (simp add: strip_hi)
  have c: "llm_stream Map.empty (get_llm (LLM_MODE initial_state)) (strip [CHR 0xA0, CHR 0x20, CHR ''h'', CHR ''i'', CHR 0x85]) (Body [] None) =
      ([''[Mock] '', ''You '', ''said: '', ''hi '', ''This '', ''is '', ''a '', ''mock '', ''response. ''], Exhausted)"
    by (simp add: initial_state_def get_llm_def strip_hi mock_stream_hi)
  have a': "dict_get [(''prompt'', JStr ''hi'')] ''prompt'' (JStr []) = JStr ''hi''"
    by (simp add: dict_get_def)
  have b': "strip ''hi'' \<noteq> []" by (simp add: strip_hi)
  have c': "llm_stream (map_of [(''[]'', JArr [])]) (get_llm (LLM_MODE (initial_state\<lparr>LLM_MODE := ''tinyllama''\<rparr>)))
        (strip ''hi'') (Body [''data: []''] None) = ([], Raised AttributeError)"
    by (simp add: get_llm_def strip_def isspace_def)
  have d: "conversation ''s1'' (initial_state\<lparr>LLM_MODE := ''tinyllama''\<rparr>) = []"
    by (simp add: conversation_def get_user_messages_def initial_state_def)
  have w1: "send_message Map.empty ''s1'' [(''prompt'', JStr [CHR 0xA0, CHR 0x20, CHR ''h'', CHR ''i'', CHR 0x85])] (Body [] None) initial_state =
     (Stream [''[Mock] '', ''You '', ''said: '', ''hi '', ''This '', ''is '', ''a '', ''mock '', ''response. ''] Exhausted,
      initial_state\<lparr>CHAT_SESSIONS := (CHAT_SESSIONS initial_state)(''s1'' \<mapsto>
         conversation ''s1'' initial_state @
         [\<lparr>role = ''user'', content = strip [CHR 0xA0, CHR 0x20, CHR ''h'', CHR ''i'', CHR 0x85]\<rparr>,
          \<lparr>role = ''assistant'', content = concat [''[Mock] '', ''You '', ''said: '', ''hi '', ''This '', ''is '', ''a '', ''mock '', ''response. '']\<rparr>])\<rparr>)"
    using send_message_commits_turn [OF a b, of Map.empty initial_state "Body [] None"
        "[''[Mock] '', ''You '', ''said: '', ''hi '', ''This '', ''is '', ''a '', ''mock '', ''response. '']" "''s1''"] c
    by blast
  have w2: "send_message (map_of [(''[]'', JArr [])]) ''s1'' [(''prompt'', JStr ''hi'')] (Body [''data: []''] None)
       (initial_state\<lparr>LLM_MODE := ''tinyllama''\<rparr>) =
     (Stream [] (Raised AttributeError),
      initial_state\<lparr>LLM_MODE := ''tinyllama''\<rparr>\<lparr>CHAT_SESSIONS :=
         (CHAT_SESSIONS (initial_state\<lparr>LLM_MODE := ''tinyllama''\<rparr>))(''s1'' \<mapsto>
            conversation ''s1'' (initial_state\<lparr>LLM_MODE := ''tinyllama''\<rparr>) @
            [\<lparr>role = ''user'', content = strip ''hi''\<rparr>])\<rparr>)"
    using send_message_commits_turn [OF a' b', of "map_of [(''[]'', JArr [])]"
        "initial_state\<lparr>LLM_MODE := ''tinyllama''\<rparr>" "Body [''data: []''] None" "[]" "''s1''" AttributeError] c'
    by blast
  have c'': "llm_stream Map.empty (get_llm (LLM_MODE (initial_state\<lparr>LLM_MODE := ''rag''\<rparr>)))
        (strip ''hi'') (Body [] None) = ([], Exhausted)"
    by (simp add: get_llm_def)
  have d'': "conversation ''s1'' (initial_state\<lparr>LLM_MODE := ''rag''\<rparr>) = []"
    by (simp add: conversation_def get_user_messages_def initial_state_def)
  have w3: "conversation ''s1''
       (snd (send_message Map.empty ''s1'' [(''prompt'', JStr ''hi'')] (Body [] None)
          (initial_state\<lparr>LLM_MODE := ''rag''\<rparr>))) =
     conversation ''s1'' (initial_state\<lparr>LLM_MODE := ''rag''\<rparr>) @
       [\<lparr>role = ''user'', content = strip ''hi''\<rparr>, \<lparr>role = ''assistant'', content = []\<rparr>]"
    using send_message_commits_turn [OF a' b', of Map.empty
        "initial_state\<lparr>LLM_MODE := ''rag''\<rparr>" "Body [] None" "[]" "''s1''"] c''
    by blast
  show ?thesis
    unfolding w1 w2 w3 d d''
    by (simp add: strip_hi conversation_initial chat_sessions_initial)
qed

text \<open>
  The claim as stated, with the original prompt as the content of the user message, fails
  for a prompt with surrounding whitespace: the prompt \<^verbatim>\<open>"  hi"\<close> is stored as \<^verbatim>\<open>"hi"\<close>.
\<close>

theorem send_message_user_content_counterexample:
  "conversation ''s1''
     (snd (send_message Map.empty ''s1'' [(''prompt'', JStr ''  hi'')] (Body [] None) initial_state)) =
     [\<lparr>role = ''user'', content = ''hi''\<rparr>,
      \<lparr>role = ''assistant'', content = ''[Mock] You said: hi This is a mock response. ''\<rparr>]
   \<and> \<lparr>role = ''user'', content = ''hi''\<rparr> \<noteq> \<lparr>role = ''user'', content = ''  hi''\<rparr>"
proof -
  have a: "dict_get [(''prompt'', JStr ''  hi'')] ''prompt'' (JStr []) = JStr ''  hi''"
    by (simp add: dict_get_def)
  have b: "strip ''  hi'' \<noteq> []" by (simp add: strip_hi)
  have c: "llm_stream Map.empty (get_llm (LLM_MODE initial_state)) (strip ''  hi'') (Body [] None) =
      ([''[Mock] '', ''You '', ''said: '', ''hi '', ''This '', ''is '', ''a '', ''mock '', ''response. ''], Exhausted)"
    by (simp add: initial_state_def get_llm_def strip_hi mock_stream_hi)
  show ?thesis
    by (simp add: send_message_exhausted [OF a b c] conversation_stored conversation_initial strip_hi)
qed

text \<open>
  Claim C4, as amended. With the mock provider active, the prompt \<^verbatim>\<open>"hi"\<close> gives the
  tokens \<^verbatim>\<open>[Mock]\<close>, \<^verbatim>\<open>You\<close>, \<^verbatim>\<open>said:\<close>, \<^verbatim>\<open>hi\<close>, \<^verbatim>\<open>This\<close>, \<^verbatim>\<open>is\<close>, \<^verbatim>\<open>a\<close>,
  \<^verbatim>\<open>mock\<close>, \<^verbatim>\<open>response.\<close>; the fragments forwarded are these tokens, each followed by one
  space, and the conversation ends with the user message \<^verbatim>\<open>hi\<close> and the assistant message
  \<^verbatim>\<open>"[Mock] You said: hi This is a mock response. "\<close>: the newline of the source string is
  a separator for \<^verbatim>\<open>split\<close> like any other whitespace, so a space stands in its place and
  the text ends with a space.
\<close>

theorem mock_reply_to_hi:
  assumes "LLM_MODE st = ''mock''"
  shows "split_ws (fake_answer ''hi'') =
           [''[Mock]'', ''You'', ''said:'', ''hi'', ''This'', ''is'', ''a'', ''mock'', ''response.'']
       \<and> send_message json_loads sid [(''prompt'', JStr ''hi'')] up st =
           (Stream [''[Mock] '', ''You '', ''said: '', ''hi '', ''This '', ''is '', ''a '', ''mock '', ''response. ''] Exhausted,
            st\<lparr>CHAT_SESSIONS := (CHAT_SESSIONS st)(sid \<mapsto>
               conversation sid st @
                 [\<lparr>role = ''user'', content = ''hi''\<rparr>,
                  \<lparr>role = ''assistant'', content = ''[Mock] You said: hi This is a mock response. ''\<rparr>])\<rparr>)"
proof -
  have a: "dict_get [(''prompt'', JStr ''hi'')] ''prompt'' (JStr []) = JStr ''hi''"
    by (simp add: dict_get_def)
  have b: "strip ''hi'' \<noteq> []" by (simp add: strip_hi)
  have c: "llm_stream json_loads (get_llm (LLM_MODE st)) (strip ''hi'') up =
      ([''[Mock] '', ''You '', ''said: '', ''hi '', ''This '', ''is '', ''a '', ''mock '', ''response. ''], Exhausted)"
    by (simp add: assms get_llm_def strip_hi mock_stream_hi)
  show ?thesis
    by (simp add: mock_tokens_hi send_message_exhausted [OF a b c] strip_hi)
qed

theorem mock_reply_to_hi_witness:
  "send_message Map.empty ''s1'' [(''prompt'', JStr ''hi'')] (Body [] None) initial_state =
     (Stream [''[Mock] '', ''You '', ''said: '', ''hi '', ''This '', ''is '', ''a '', ''mock '', ''response. ''] Exhausted,
      initial_state\<lparr>CHAT_SESSIONS := [''s1'' \<mapsto>
         [\<lparr>role = ''user'', content = ''hi''\<rparr>,
          \<lparr>role = ''assistant'', content = ''[Mock] You said: hi This is a mock response. ''\<rparr>]]\<rparr>)"
proof -
  have m: "LLM_MODE initial_state = ''mock''" by (simp add: initial_state_def)
  from mock_reply_to_hi [OF m, of Map.empty "''s1''" "Body [] None"]
  show ?thesis by (simp add: conversation_initial chat_sessions_initial)
qed

text \<open>
  The claim as stated gives the content of the assistant message with the newline kept and
  a newline at the end; the content stored is another text.
\<close>

theorem mock_reply_content_counterexample:
  "content (last (conversation ''s1''
      (snd (send_message Map.empty ''s1'' [(''prompt'', JStr ''hi'')] (Body [] None) initial_state)))) =
     ''[Mock] You said: hi This is a mock response. ''
   \<and> ''[Mock] You said: hi This is a mock response. '' \<noteq>
       ''[Mock] You said: hi'' @ [CHR 0x0A] @ ''This is a mock response.'' @ [CHR 0x0A]"
proof -
  have a: "dict_get [(''prompt'', JStr ''hi'')] ''prompt'' (JStr []) = JStr ''hi''"
    by (simp add: dict_get_def)
  have b: "strip ''hi'' \<noteq> []" by (simp add: strip_hi)
  have c: "llm_stream Map.empty (get_llm (LLM_MODE initial_state)) (strip ''hi'') (Body [] None) =
      ([''[Mock] '', ''You '', ''said: '', ''hi '', ''This '', ''is '', ''a '', ''mock '', ''response. ''], Exhausted)"
    by (simp add: initial_state_def get_llm_def strip_hi mock_stream_hi)
  show ?thesis
    by (simp add: send_message_exhausted [OF a b c] conversation_stored conversation_initial strip_hi)
qed

section \<open>Stop-marker truncation in the local-model providers\<close>

lemma str_contains_single: "str_contains [a] t \<longleftrightarrow> a \<in> set t"
  by (induction t) auto

lemma split_first_single: "split_first [a] t = takeWhile (\<lambda>c. c \<noteq> a) t"
  by (induction t) auto

lemma stop_in_text: "str_contains STOP_SEQUENCE t \<longleftrightarrow> CHR 0x0A \<in> set t"
  by (simp add: STOP_SEQUENCE_def str_contains_single)

lemma text_before_stop: "split_first STOP_SEQUENCE t = takeWhile (\<lambda>c. c \<noteq> CHR 0x0A) t"
  by (simp add: STOP_SEQUENCE_def split_first_single)

lemma process_choices_text:
  "process_choices [JObj [(''text'', JStr t)]] =
     (if t = [] then ([], Continue)
      else if CHR 0x0A \<in> set t then ([takeWhile (\<lambda>c. c \<noteq> CHR 0x0A) t], Return)
      else ([t], Continue))"
  by (simp add: dict_get_def stop_in_text text_before_stop)

lemma strip_keeps_head:
  assumes "\<not> isspace c"
  shows "\<exists>r. strip (c # s) = c # r"
proof -
  have "dropWhile isspace (rev s @ [c]) = dropWhile isspace (rev s) @ [c]
        \<or> dropWhile isspace (rev s @ [c]) = [] @ [c]"
    using assms by (simp add: dropWhile_append)
  then obtain ys where "dropWhile isspace (rev s @ [c]) = ys @ [c]"
    by blast
  then have "rev (dropWhile isspace (rev s @ [c])) = c # rev ys"
    by simp
  then show ?thesis
    using assms by (simp add: strip_def)
qed

lemma data_line_not_done: "strip (''data: '' @ p) \<noteq> ''[DONE]''"
proof -
  have "\<not> isspace CHR ''d''" by (simp add: isspace_def)
  from strip_keeps_head [OF this, of "''ata: '' @ p"]
  obtain r where "strip (''data: '' @ p) = CHR ''d'' # r" by auto
  then show ?thesis by simp
qed

lemma stream_lines_data_line:
  assumes "json_loads p = Some (JObj [(''choices'', JArr [JObj [(''text'', JStr t)]])])"
  shows "stream_lines json_loads ((''data: '' @ p) # rest) =
     (if t = [] then stream_lines json_loads rest
      else if CHR 0x0A \<in> set t then ([takeWhile (\<lambda>c. c \<noteq> CHR 0x0A) t], Return)
      else (case stream_lines json_loads rest of (zs, c) \<Rightarrow> (t # zs, c)))"
proof -
  have d: "drop (length ''data: '') (''data: '' @ p) = p" by simp
  have n: "strip (''data: '' @ p) \<noteq> ''[DONE]''" by (rule data_line_not_done)
  have pr: "prefix ''data: '' (''data: '' @ p)" by simp
  have ne: "''data: '' @ p \<noteq> []" by simp
  have l: "stream_lines json_loads ((''data: '' @ p) # rest) =
      (case process_choices [JObj [(''text'', JStr t)]] of
         (ys, Continue) \<Rightarrow> (case stream_lines json_loads rest of (zs, c) \<Rightarrow> (ys @ zs, c))
       | (ys, Return) \<Rightarrow> (ys, Return)
       | (ys, Raise e) \<Rightarrow> (ys, Raise e))"
    unfolding stream_lines.simps(2) [of json_loads "''data: '' @ p" rest]
    by (simp only: d n pr ne assms if_True if_False simp_thms option.case json_get.simps
          iterate.simps sum.case) (simp add: dict_get_def del: process_choices.simps)
  show ?thesis
    unfolding l process_choices_text by (simp split: prod.splits)
qed

lemma process_choices_texts:
  assumes "list_all2 (\<lambda>c t. \<exists>kv. c = JObj kv \<and> dict_get kv ''text'' (JStr []) = JStr t) cs ts"
  shows "process_choices cs =
     (if \<forall>t \<in> set ts. CHR 0x0A \<notin> set t then (filter (\<lambda>t. t \<noteq> []) ts, Continue)
      else (filter (\<lambda>t. t \<noteq> []) (takeWhile (\<lambda>t. CHR 0x0A \<notin> set t) ts)
              @ [takeWhile (\<lambda>c. c \<noteq> CHR 0x0A) (hd (dropWhile (\<lambda>t. CHR 0x0A \<notin> set t) ts))],
            Return))"
  using assms
proof (induction rule: list_all2_induct)
  case Nil
  show ?case by simp
next
  case (Cons c cs t ts)
  then obtain kv where c: "c = JObj kv" and t: "dict_get kv ''text'' (JStr []) = JStr t"
    by blast
  show ?case
  proof (cases "t = []")
    case True
    then show ?thesis
      using Cons.IH by (simp add: c t)
  next
    case False
    show ?thesis
    proof (cases "CHR 0x0A \<in> set t")
      case True
      with False show ?thesis
        by (simp add: c t stop_in_text text_before_stop)
    next
      case no: False
      with False show ?thesis
        using Cons.IH by (simp add: c t stop_in_text)
    qed
  qed
qed

lemma stream_lines_skip:
  assumes "line = [] \<or> strip line = ''[DONE]'' \<or> \<not> prefix ''data: '' line
           \<or> json_loads (drop (length ''data: '') line) = None"
  shows "stream_lines json_loads (line # following) = stream_lines json_loads following"
  using assms by auto

lemma stream_lines_chunks:
  assumes "line \<noteq> []" and "strip line \<noteq> ''[DONE]''" and "prefix ''data: '' line"
    and "json_loads (drop (length ''data: '') line) = Some (JObj d)"
    and "dict_get d ''choices'' (JArr []) = JArr cs"
  shows "stream_lines json_loads (line # following) =
     (case process_choices cs of
        (ys, Continue) \<Rightarrow> (case stream_lines json_loads following of (zs, c) \<Rightarrow> (ys @ zs, c))
      | (ys, Return) \<Rightarrow> (ys, Return)
      | (ys, Raise e) \<Rightarrow> (ys, Raise e))"
  using assms by (simp del: process_choices.simps)


lemma split_at_first_stop:
  assumes "\<not> (\<forall>t \<in> set ts. CHR 0x0A \<notin> set t)"
  shows "takeWhile (\<lambda>t. CHR 0x0A \<notin> set t) (ts @ us) = takeWhile (\<lambda>t. CHR 0x0A \<notin> set t) ts"
    and "hd (dropWhile (\<lambda>t. CHR 0x0A \<notin> set t) (ts @ us)) = hd (dropWhile (\<lambda>t. CHR 0x0A \<notin> set t) ts)"
proof -
  from assms obtain t where t: "t \<in> set ts" "\<not> CHR 0x0A \<notin> set t" by blast
  show "takeWhile (\<lambda>t. CHR 0x0A \<notin> set t) (ts @ us) = takeWhile (\<lambda>t. CHR 0x0A \<notin> set t) ts"
    using t by (rule takeWhile_append1)
  have d: "dropWhile (\<lambda>t. CHR 0x0A \<notin> set t) (ts @ us) = dropWhile (\<lambda>t. CHR 0x0A \<notin> set t) ts @ us"
    using t by (rule dropWhile_append1)
  from assms have "dropWhile (\<lambda>t. CHR 0x0A \<notin> set t) ts \<noteq> []"
    by simp
  then show "hd (dropWhile (\<lambda>t. CHR 0x0A \<notin> set t) (ts @ us)) = hd (dropWhile (\<lambda>t. CHR 0x0A \<notin> set t) ts)"
    unfolding d by simp
qed

lemma stream_lines_texts:
  assumes "list_all2 (\<lambda>line ts.
        ((line = [] \<or> strip line = ''[DONE]'' \<or> \<not> prefix ''data: '' line
            \<or> json_loads (drop (length ''data: '') line) = None) \<and> ts = [])
        \<or> (line \<noteq> [] \<and> strip line \<noteq> ''[DONE]'' \<and> prefix ''data: '' line
            \<and> (\<exists>d cs. json_loads (drop (length ''data: '') line) = Some (JObj d)
                  \<and> dict_get d ''choices'' (JArr []) = JArr cs
                  \<and> list_all2 (\<lambda>c t. \<exists>kv. c = JObj kv \<and> dict_get kv ''text'' (JStr []) = JStr t) cs ts))) lines tss"
  shows "stream_lines json_loads (lines @ rest) =
     (if \<forall>t \<in> set (concat tss). CHR 0x0A \<notin> set t
      then (case stream_lines json_loads rest of (zs, c) \<Rightarrow> (filter (\<lambda>t. t \<noteq> []) (concat tss) @ zs, c))
      else (filter (\<lambda>t. t \<noteq> []) (takeWhile (\<lambda>t. CHR 0x0A \<notin> set t) (concat tss))
              @ [takeWhile (\<lambda>c. c \<noteq> CHR 0x0A) (hd (dropWhile (\<lambda>t. CHR 0x0A \<notin> set t) (concat tss)))],
            Return))"
  using assms
proof (induction rule: list_all2_induct)
  case Nil
  show ?case by simp
next
  case (Cons line lines ts tss)
  let ?P = "\<lambda>t. CHR 0x0A \<notin> set t"
  from Cons.hyps(1) consider
      (skip) "line = [] \<or> strip line = ''[DONE]'' \<or> \<not> prefix ''data: '' line
            \<or> json_loads (drop (length ''data: '') line) = None" "ts = []"
    | (chunks) d cs where "line \<noteq> []" "strip line \<noteq> ''[DONE]''" "prefix ''data: '' line"
        "json_loads (drop (length ''data: '') line) = Some (JObj d)"
        "dict_get d ''choices'' (JArr []) = JArr cs"
        "list_all2 (\<lambda>c t. \<exists>kv. c = JObj kv \<and> dict_get kv ''text'' (JStr []) = JStr t) cs ts"
    by (elim disjE conjE exE) fast+
  then show ?case
  proof cases
    case skip
    have "stream_lines json_loads ((line # lines) @ rest) = stream_lines json_loads (lines @ rest)"
      using stream_lines_skip [of line json_loads "lines @ rest", OF skip(1)] by simp
    then show ?thesis
      unfolding Cons.IH using skip(2) by simp
  next
    case chunks
    have l: "stream_lines json_loads ((line # lines) @ rest) =
       (case process_choices cs of
          (ys, Continue) \<Rightarrow> (case stream_lines json_loads (lines @ rest) of (zs, c) \<Rightarrow> (ys @ zs, c))
        | (ys, Return) \<Rightarrow> (ys, Return)
        | (ys, Raise e) \<Rightarrow> (ys, Raise e))"
      using stream_lines_chunks [of line json_loads d cs "lines @ rest", OF chunks(1-5)] by simp
    show ?thesis
    proof (cases "\<forall>t \<in> set ts. CHR 0x0A \<notin> set t")
      case True
      then have p: "process_choices cs = (filter (\<lambda>t. t \<noteq> []) ts, Continue)"
        by (simp add: process_choices_texts [OF chunks(6)])
      from True have tw: "takeWhile ?P (ts @ concat tss) = ts @ takeWhile ?P (concat tss)"
        and dw: "dropWhile ?P (ts @ concat tss) = dropWhile ?P (concat tss)"
        by simp_all
      show ?thesis
      proof (cases "\<forall>t \<in> set (concat tss). CHR 0x0A \<notin> set t")
        case all: True
        have ih: "stream_lines json_loads (lines @ rest) =
            (case stream_lines json_loads rest of
               (zs, c) \<Rightarrow> (filter (\<lambda>t. t \<noteq> []) (concat tss) @ zs, c))"
          unfolding Cons.IH by (rule if_P [OF all])
        from True all have a: "\<forall>t \<in> set (concat (ts # tss)). CHR 0x0A \<notin> set t"
          by auto
        show ?thesis
          unfolding l p ih if_P [OF a] by (simp split: prod.splits)
      next
        case some: False
        have ih: "stream_lines json_loads (lines @ rest) =
            (filter (\<lambda>t. t \<noteq> []) (takeWhile ?P (concat tss))
               @ [takeWhile (\<lambda>c. c \<noteq> CHR 0x0A) (hd (dropWhile ?P (concat tss)))], Return)"
          unfolding Cons.IH by (rule if_not_P [OF some])
        from some have b: "\<not> (\<forall>t \<in> set (ts @ concat tss). CHR 0x0A \<notin> set t)"
          by auto
        have c: "concat (ts # tss) = ts @ concat tss" by simp
        show ?thesis
          unfolding l p ih if_not_P [OF b] c tw dw by simp
      qed
    next
      case False
      then have p: "process_choices cs =
          (filter (\<lambda>t. t \<noteq> []) (takeWhile ?P ts) @ [takeWhile (\<lambda>c. c \<noteq> CHR 0x0A) (hd (dropWhile ?P ts))], Return)"
        by (simp add: process_choices_texts [OF chunks(6)])
      from False have n: "\<not> (\<forall>t \<in> set (ts @ concat tss). CHR 0x0A \<notin> set t)"
        by auto
      have c: "concat (ts # tss) = ts @ concat tss" by simp
      show ?thesis
        unfolding l p if_not_P [OF n] c split_at_first_stop [OF False] by simp
    qed
  qed
qed

lemma local_stream_first_stop:
  assumes "list_all2 (\<lambda>line ts.
        ((line = [] \<or> strip line = ''[DONE]'' \<or> \<not> prefix ''data: '' line
            \<or> json_loads (drop (length ''data: '') line) = None) \<and> ts = [])
        \<or> (line \<noteq> [] \<and> strip line \<noteq> ''[DONE]'' \<and> prefix ''data: '' line
            \<and> (\<exists>d cs. json_loads (drop (length ''data: '') line) = Some (JObj d)
                  \<and> dict_get d ''choices'' (JArr []) = JArr cs
                  \<and> list_all2 (\<lambda>c t. \<exists>kv. c = JObj kv \<and> dict_get kv ''text'' (JStr []) = JStr t) cs ts))) lines tss"
    and "concat tss = pre @ tk # post"
    and "\<forall>t \<in> set pre. CHR 0x0A \<notin> set t"
    and "CHR 0x0A \<in> set tk"
  shows "local_stream json_loads (Body (lines @ rest) ending) = (filter (\<lambda>t. t \<noteq> []) pre @ [takeWhile (\<lambda>c. c \<noteq> CHR 0x0A) tk], Exhausted)"
proof -
  from assms(4) have n: "\<not> (\<forall>t \<in> set (pre @ tk # post). CHR 0x0A \<notin> set t)"
    by auto
  from assms(3,4) have tw: "takeWhile (\<lambda>t. CHR 0x0A \<notin> set t) (pre @ tk # post) = pre"
    and dw: "dropWhile (\<lambda>t. CHR 0x0A \<notin> set t) (pre @ tk # post) = tk # post"
    by simp_all
  have "stream_lines json_loads (lines @ rest) =
      (filter (\<lambda>t. t \<noteq> []) pre @ [takeWhile (\<lambda>c. c \<noteq> CHR 0x0A) tk], Return)"
    unfolding stream_lines_texts [OF assms(1)] assms(2) if_not_P [OF n] tw dw by simp
  then show ?thesis by simp
qed

lemma local_stream_scenario:
  assumes h1: \<open>json_loads ''{"choices":[{"text":"The"}]}'' = Some (JObj [(''choices'', JArr [JObj [(''text'', JStr ''The'')]])])\<close>
    and h2: \<open>json_loads (''{"choices":[{"text":" sky'' @ [CHR 0x5C] @ ''nExtra"}]}'') = Some (JObj [(''choices'', JArr [JObj [(''text'', JStr ('' sky'' @ [CHR 0x0A] @ ''Extra''))]])])\<close>
  shows \<open>local_stream json_loads (Body [''data: {"choices":[{"text":"The"}]}'', (''data: {"choices":[{"text":" sky'' @ [CHR 0x5C] @ ''nExtra"}]}'')] None) = ([''The'', '' sky''], Exhausted)\<close>
proof -
  have e1: \<open>''data: {"choices":[{"text":"The"}]}'' = ''data: '' @ ''{"choices":[{"text":"The"}]}''\<close> by simp
  have e2: \<open>(''data: {"choices":[{"text":" sky'' @ [CHR 0x5C] @ ''nExtra"}]}'') = ''data: '' @ (''{"choices":[{"text":" sky'' @ [CHR 0x5C] @ ''nExtra"}]}'')\<close> by simp
  have s2: \<open>stream_lines json_loads [''data: '' @ (''{"choices":[{"text":" sky'' @ [CHR 0x5C] @ ''nExtra"}]}'')] = ([takeWhile (\<lambda>c. c \<noteq> CHR 0x0A) ('' sky'' @ [CHR 0x0A] @ ''Extra'')], Return)\<close>
    unfolding stream_lines_data_line [of json_loads \<open>(''{"choices":[{"text":" sky'' @ [CHR 0x5C] @ ''nExtra"}]}'')\<close> \<open>('' sky'' @ [CHR 0x0A] @ ''Extra'')\<close> "[]", OF h2] by simp
  have s1: \<open>stream_lines json_loads [''data: '' @ ''{"choices":[{"text":"The"}]}'', ''data: '' @ (''{"choices":[{"text":" sky'' @ [CHR 0x5C] @ ''nExtra"}]}'')] = ([''The'', '' sky''], Return)\<close>
    unfolding stream_lines_data_line [of json_loads \<open>''{"choices":[{"text":"The"}]}''\<close> "''The''", OF h1] s2 by simp
  show ?thesis
    unfolding e1 e2 local_stream.simps s1 by simp
qed

text \<open>
  Claim C2. Let \<open>lines\<close> be lines of the body of which each one either is passed over by
  the loop (it is empty, is \<^verbatim>\<open>[DONE]\<close> after stripping, does not begin with \<^verbatim>\<open>data: \<close>, or
  is not decoded) or is a \<^verbatim>\<open>data: \<close> line that decodes to an object whose \<^verbatim>\<open>choices\<close> are
  objects with a string under \<^verbatim>\<open>text\<close> (a missing \<^verbatim>\<open>text\<close> counts as the empty string;
  other keys may be present throughout), and let \<open>tss\<close> hold the texts of each line, so
  that \<open>concat tss\<close> is the sequence of text chunks of the stream. If the newline does
  not occur in the chunks \<open>pre\<close> of this sequence and occurs in the next chunk \<open>tk\<close>, the
  local-model providers forward the texts of \<open>pre\<close> unchanged and in order (an empty text
  is no fragment), then the part of \<open>tk\<close> before its first newline, and the generator ends
  there: whatever chunks \<open>post\<close> and lines \<open>rest\<close> follow and however the body ends,
  nothing of them is forwarded. In particular the lines
  \<^verbatim>\<open>data: {"choices":[{"text":"The"}]}\<close> and \<^verbatim>\<open>data: {"choices":[{"text":" sky\nExtra"}]}\<close>
  give the fragments \<^verbatim>\<open>"The"\<close> and \<^verbatim>\<open>" sky"\<close>.
\<close>

theorem stop_marker_truncates:
  \<open>(list_all2 (\<lambda>line ts.
        ((line = [] \<or> strip line = ''[DONE]'' \<or> \<not> prefix ''data: '' line
            \<or> json_loads (drop (length ''data: '') line) = None) \<and> ts = [])
        \<or> (line \<noteq> [] \<and> strip line \<noteq> ''[DONE]'' \<and> prefix ''data: '' line
            \<and> (\<exists>d cs. json_loads (drop (length ''data: '') line) = Some (JObj d)
                  \<and> dict_get d ''choices'' (JArr []) = JArr cs
                  \<and> list_all2 (\<lambda>c t. \<exists>kv. c = JObj kv \<and> dict_get kv ''text'' (JStr []) = JStr t) cs ts))) lines tss
      \<and> concat tss = pre @ tk # post
      \<and> (\<forall>t \<in> set pre. CHR 0x0A \<notin> set t) \<and> CHR 0x0A \<in> set tk
    \<longrightarrow> local_stream json_loads (Body (lines @ rest) ending) = (filter (\<lambda>t. t \<noteq> []) pre @ [takeWhile (\<lambda>c. c \<noteq> CHR 0x0A) tk], Exhausted)
      \<and> llm_stream json_loads TinyLlamaLLM prompt (Body (lines @ rest) ending) = (filter (\<lambda>t. t \<noteq> []) pre @ [takeWhile (\<lambda>c. c \<noteq> CHR 0x0A) tk], Exhausted)
      \<and> llm_stream json_loads Llama3_1_8bLLM prompt (Body (lines @ rest) ending) = (filter (\<lambda>t. t \<noteq> []) pre @ [takeWhile (\<lambda>c. c \<noteq> CHR 0x0A) tk], Exhausted))
   \<and> (json_loads ''{"choices":[{"text":"The"}]}'' = Some (JObj [(''choices'', JArr [JObj [(''text'', JStr ''The'')]])])
      \<and> json_loads (''{"choices":[{"text":" sky'' @ [CHR 0x5C] @ ''nExtra"}]}'') = Some (JObj [(''choices'', JArr [JObj [(''text'', JStr ('' sky'' @ [CHR 0x0A] @ ''Extra''))]])])
    \<longrightarrow> local_stream json_loads (Body [''data: {"choices":[{"text":"The"}]}'', (''data: {"choices":[{"text":" sky'' @ [CHR 0x5C] @ ''nExtra"}]}'')] None) = ([''The'', '' sky''], Exhausted))\<close>
proof (intro conjI impI)
  assume \<open>json_loads ''{"choices":[{"text":"The"}]}'' = Some (JObj [(''choices'', JArr [JObj [(''text'', JStr ''The'')]])])
      \<and> json_loads (''{"choices":[{"text":" sky'' @ [CHR 0x5C] @ ''nExtra"}]}'') = Some (JObj [(''choices'', JArr [JObj [(''text'', JStr ('' sky'' @ [CHR 0x0A] @ ''Extra''))]])])\<close>
  then show \<open>local_stream json_loads (Body [''data: {"choices":[{"text":"The"}]}'', (''data: {"choices":[{"text":" sky'' @ [CHR 0x5C] @ ''nExtra"}]}'')] None) = ([''The'', '' sky''], Exhausted)\<close>
    by (intro local_stream_scenario) simp_all
next
  assume h: \<open>list_all2 (\<lambda>line ts.
        ((line = [] \<or> strip line = ''[DONE]'' \<or> \<not> prefix ''data: '' line
            \<or> json_loads (drop (length ''data: '') line) = None) \<and> ts = [])
        \<or> (line \<noteq> [] \<and> strip line \<noteq> ''[DONE]'' \<and> prefix ''data: '' line
            \<and> (\<exists>d cs. json_loads (drop (length ''data: '') line) = Some (JObj d)
                  \<and> dict_get d ''choices'' (JArr []) = JArr cs
                  \<and> list_all2 (\<lambda>c t. \<exists>kv. c = JObj kv \<and> dict_get kv ''text'' (JStr []) = JStr t) cs ts))) lines tss
      \<and> concat tss = pre @ tk # post
      \<and> (\<forall>t \<in> set pre. CHR 0x0A \<notin> set t) \<and> CHR 0x0A \<in> set tk\<close>
  have r: \<open>local_stream json_loads (Body (lines @ rest) ending) = (filter (\<lambda>t. t \<noteq> []) pre @ [takeWhile (\<lambda>c. c \<noteq> CHR 0x0A) tk], Exhausted)\<close>
    using h by (intro local_stream_first_stop [of json_loads lines tss pre tk post]) blast+
  then show \<open>local_stream json_loads (Body (lines @ rest) ending) = (filter (\<lambda>t. t \<noteq> []) pre @ [takeWhile (\<lambda>c. c \<noteq> CHR 0x0A) tk], Exhausted)\<close> .
  from r show \<open>llm_stream json_loads TinyLlamaLLM prompt (Body (lines @ rest) ending) = (filter (\<lambda>t. t \<noteq> []) pre @ [takeWhile (\<lambda>c. c \<noteq> CHR 0x0A) tk], Exhausted)\<close>
    by (simp only: llm_stream.simps)
  from r show \<open>llm_stream json_loads Llama3_1_8bLLM prompt (Body (lines @ rest) ending) = (filter (\<lambda>t. t \<noteq> []) pre @ [takeWhile (\<lambda>c. c \<noteq> CHR 0x0A) tk], Exhausted)\<close>
    by (simp only: llm_stream.simps)
qed

theorem stop_marker_truncates_witness:
  \<open>local_stream (map_of [(''{"id":"c1","choices":[{"index":0,"text":"The"}]}'', JObj [(''id'', JStr ''c1''), (''choices'', JArr [JObj [(''index'', JNum 0), (''text'', JStr ''The'')]])]), ((''{"id":"c1","choices":[{"index":0,"text":" sky'' @ [CHR 0x5C] @ ''nExtra"}]}''), JObj [(''id'', JStr ''c1''), (''choices'', JArr [JObj [(''index'', JNum 0), (''text'', JStr ('' sky'' @ [CHR 0x0A] @ ''Extra''))]])])])
      (Body ['': ping'', [], ''data: {"id":"c1","choices":[{"index":0,"text":"The"}]}'', '' [DONE] '', ''data: {bad'', (''data: {"id":"c1","choices":[{"index":0,"text":" sky'' @ [CHR 0x5C] @ ''nExtra"}]}''), [], ''data: [DONE]''] (Some ''reset'')) =
     ([''The'', '' sky''], Exhausted)
   \<and> local_stream (map_of [(''{"choices":[{"text":"The"}]}'', JObj [(''choices'', JArr [JObj [(''text'', JStr ''The'')]])]), ((''{"choices":[{"text":" sky'' @ [CHR 0x5C] @ ''nExtra"}]}''), JObj [(''choices'', JArr [JObj [(''text'', JStr ('' sky'' @ [CHR 0x0A] @ ''Extra''))]])])])
      (Body [''data: {"choices":[{"text":"The"}]}'', (''data: {"choices":[{"text":" sky'' @ [CHR 0x5C] @ ''nExtra"}]}'')] None) = ([''The'', '' sky''], Exhausted)\<close>
proof -
  let ?ja = \<open>map_of [(''{"id":"c1","choices":[{"index":0,"text":"The"}]}'', JObj [(''id'', JStr ''c1''), (''choices'', JArr [JObj [(''index'', JNum 0), (''text'', JStr ''The'')]])]), ((''{"id":"c1","choices":[{"index":0,"text":" sky'' @ [CHR 0x5C] @ ''nExtra"}]}''), JObj [(''id'', JStr ''c1''), (''choices'', JArr [JObj [(''index'', JNum 0), (''text'', JStr ('' sky'' @ [CHR 0x0A] @ ''Extra''))]])])]\<close>
  let ?jl = \<open>map_of [(''{"choices":[{"text":"The"}]}'', JObj [(''choices'', JArr [JObj [(''text'', JStr ''The'')]])]), ((''{"choices":[{"text":" sky'' @ [CHR 0x5C] @ ''nExtra"}]}''), JObj [(''choices'', JArr [JObj [(''text'', JStr ('' sky'' @ [CHR 0x0A] @ ''Extra''))]])])]\<close>
  let ?R = \<open>(\<lambda>line ts.
        ((line = [] \<or> strip line = ''[DONE]'' \<or> \<not> prefix ''data: '' line
            \<or> ?ja (drop (length ''data: '') line) = None) \<and> ts = [])
        \<or> (line \<noteq> [] \<and> strip line \<noteq> ''[DONE]'' \<and> prefix ''data: '' line
            \<and> (\<exists>d cs. ?ja (drop (length ''data: '') line) = Some (JObj d)
                  \<and> dict_get d ''choices'' (JArr []) = JArr cs
                  \<and> list_all2 (\<lambda>c t. \<exists>kv. c = JObj kv \<and> dict_get kv ''text'' (JStr []) = JStr t) cs ts)))\<close>
  have ja: \<open>?ja ''{"id":"c1","choices":[{"index":0,"text":"The"}]}'' = Some (JObj [(''id'', JStr ''c1''), (''choices'', JArr [JObj [(''index'', JNum 0), (''text'', JStr ''The'')]])])\<close> by simp
  have jb: \<open>?ja (''{"id":"c1","choices":[{"index":0,"text":" sky'' @ [CHR 0x5C] @ ''nExtra"}]}'') = Some (JObj [(''id'', JStr ''c1''), (''choices'', JArr [JObj [(''index'', JNum 0), (''text'', JStr ('' sky'' @ [CHR 0x0A] @ ''Extra''))]])])\<close> by simp
  have jbad: \<open>?ja ''{bad'' = None\<close> by simp
  have sa: \<open>strip ''data: {"id":"c1","choices":[{"index":0,"text":"The"}]}'' \<noteq> ''[DONE]''\<close>
    using data_line_not_done [of \<open>''{"id":"c1","choices":[{"index":0,"text":"The"}]}''\<close>] by simp
  have sb: \<open>strip (''data: {"id":"c1","choices":[{"index":0,"text":" sky'' @ [CHR 0x5C] @ ''nExtra"}]}'') \<noteq> ''[DONE]''\<close>
    using data_line_not_done [of \<open>(''{"id":"c1","choices":[{"index":0,"text":" sky'' @ [CHR 0x5C] @ ''nExtra"}]}'')\<close>] by simp
  have da: \<open>drop (length ''data: '') ''data: {"id":"c1","choices":[{"index":0,"text":"The"}]}'' = ''{"id":"c1","choices":[{"index":0,"text":"The"}]}''\<close> by simp
  have db: \<open>drop (length ''data: '') (''data: {"id":"c1","choices":[{"index":0,"text":" sky'' @ [CHR 0x5C] @ ''nExtra"}]}'') = (''{"id":"c1","choices":[{"index":0,"text":" sky'' @ [CHR 0x5C] @ ''nExtra"}]}'')\<close> by simp
  have dbad: \<open>drop (length ''data: '') ''data: {bad'' = ''{bad''\<close> by simp
  have r1: \<open>?R '': ping'' []\<close> by simp
  have r2: \<open>?R [] []\<close> by simp
  have r3: \<open>?R ''data: {"id":"c1","choices":[{"index":0,"text":"The"}]}'' [''The'']\<close>
    unfolding da ja using sa by (simp add: dict_get_def)
  have r4: \<open>?R '' [DONE] '' []\<close> by (simp add: strip_def isspace_def)
  have r5: \<open>?R ''data: {bad'' []\<close>
    unfolding dbad jbad by simp
  have r6: \<open>?R (''data: {"id":"c1","choices":[{"index":0,"text":" sky'' @ [CHR 0x5C] @ ''nExtra"}]}'') [('' sky'' @ [CHR 0x0A] @ ''Extra'')]\<close>
    unfolding db jb using sb by (simp add: dict_get_def)
  have a: \<open>list_all2 ?R ['': ping'', [], ''data: {"id":"c1","choices":[{"index":0,"text":"The"}]}'', '' [DONE] '', ''data: {bad'', (''data: {"id":"c1","choices":[{"index":0,"text":" sky'' @ [CHR 0x5C] @ ''nExtra"}]}'')]
      [[], [], [''The''], [], [], [('' sky'' @ [CHR 0x0A] @ ''Extra'')]]\<close>
    by (intro list.rel_intros r1 r2 r3 r4 r5 r6)
  have b: \<open>concat [[], [], [''The''], [], [], [('' sky'' @ [CHR 0x0A] @ ''Extra'')]] = [''The''] @ ('' sky'' @ [CHR 0x0A] @ ''Extra'') # []\<close>
    by simp
  have c: \<open>\<forall>t \<in> set [''The'']. CHR 0x0A \<notin> set t\<close> by simp
  have d: \<open>CHR 0x0A \<in> set ('' sky'' @ [CHR 0x0A] @ ''Extra'')\<close> by simp
  have h1: \<open>?jl ''{"choices":[{"text":"The"}]}'' = Some (JObj [(''choices'', JArr [JObj [(''text'', JStr ''The'')]])])\<close> by simp
  have h2: \<open>?jl (''{"choices":[{"text":" sky'' @ [CHR 0x5C] @ ''nExtra"}]}'') = Some (JObj [(''choices'', JArr [JObj [(''text'', JStr ('' sky'' @ [CHR 0x0A] @ ''Extra''))]])])\<close> by simp
  note t1 = stop_marker_truncates [of ?ja
         \<open>['': ping'', [], ''data: {"id":"c1","choices":[{"index":0,"text":"The"}]}'', '' [DONE] '', ''data: {bad'', (''data: {"id":"c1","choices":[{"index":0,"text":" sky'' @ [CHR 0x5C] @ ''nExtra"}]}'')]\<close>
         \<open>[[], [], [''The''], [], [], [('' sky'' @ [CHR 0x0A] @ ''Extra'')]]\<close> \<open>[''The'']\<close> \<open>('' sky'' @ [CHR 0x0A] @ ''Extra'')\<close> \<open>[]\<close>
         \<open>[[], ''data: [DONE]'']\<close> \<open>Some ''reset''\<close>]
  have g: \<open>list_all2 ?R ['': ping'', [], ''data: {"id":"c1","choices":[{"index":0,"text":"The"}]}'', '' [DONE] '', ''data: {bad'', (''data: {"id":"c1","choices":[{"index":0,"text":" sky'' @ [CHR 0x5C] @ ''nExtra"}]}'')]
      [[], [], [''The''], [], [], [('' sky'' @ [CHR 0x0A] @ ''Extra'')]]
    \<and> concat [[], [], [''The''], [], [], [('' sky'' @ [CHR 0x0A] @ ''Extra'')]] = [''The''] @ ('' sky'' @ [CHR 0x0A] @ ''Extra'') # []
    \<and> (\<forall>t \<in> set [''The'']. CHR 0x0A \<notin> set t) \<and> CHR 0x0A \<in> set ('' sky'' @ [CHR 0x0A] @ ''Extra'')\<close>
    using a b c d by (intro conjI)
  have w1: \<open>local_stream ?ja
      (Body (['': ping'', [], ''data: {"id":"c1","choices":[{"index":0,"text":"The"}]}'', '' [DONE] '', ''data: {bad'', (''data: {"id":"c1","choices":[{"index":0,"text":" sky'' @ [CHR 0x5C] @ ''nExtra"}]}'')] @ [[], ''data: [DONE]'']) (Some ''reset'')) =
     (filter (\<lambda>t. t \<noteq> []) [''The''] @ [takeWhile (\<lambda>c. c \<noteq> CHR 0x0A) ('' sky'' @ [CHR 0x0A] @ ''Extra'')], Exhausted)\<close>
    by (rule t1 [THEN conjunct1, THEN mp, OF g, THEN conjunct1])
  note t2 = stop_marker_truncates [of ?jl]
  have h: \<open>?jl ''{"choices":[{"text":"The"}]}'' = Some (JObj [(''choices'', JArr [JObj [(''text'', JStr ''The'')]])]) \<and> ?jl (''{"choices":[{"text":" sky'' @ [CHR 0x5C] @ ''nExtra"}]}'') = Some (JObj [(''choices'', JArr [JObj [(''text'', JStr ('' sky'' @ [CHR 0x0A] @ ''Extra''))]])])\<close>
    using h1 h2 by (intro conjI)
  have w2: \<open>local_stream ?jl (Body [''data: {"choices":[{"text":"The"}]}'', (''data: {"choices":[{"text":" sky'' @ [CHR 0x5C] @ ''nExtra"}]}'')] None) = ([''The'', '' sky''], Exhausted)\<close>
    by (rule t2 [THEN conjunct2, THEN mp, OF h])
  have e: \<open>['': ping'', [], ''data: {"id":"c1","choices":[{"index":0,"text":"The"}]}'', '' [DONE] '', ''data: {bad'', (''data: {"id":"c1","choices":[{"index":0,"text":" sky'' @ [CHR 0x5C] @ ''nExtra"}]}'')] @ [[], ''data: [DONE]''] =
      ['': ping'', [], ''data: {"id":"c1","choices":[{"index":0,"text":"The"}]}'', '' [DONE] '', ''data: {bad'', (''data: {"id":"c1","choices":[{"index":0,"text":" sky'' @ [CHR 0x5C] @ ''nExtra"}]}''), [], ''data: [DONE]'']\<close>
    by simp
  have f: \<open>filter (\<lambda>t. t \<noteq> []) [''The''] @ [takeWhile (\<lambda>c. c \<noteq> CHR 0x0A) ('' sky'' @ [CHR 0x0A] @ ''Extra'')] = [''The'', '' sky'']\<close>
    by simp
  from w1 have w1': \<open>local_stream ?ja
      (Body ['': ping'', [], ''data: {"id":"c1","choices":[{"index":0,"text":"The"}]}'', '' [DONE] '', ''data: {bad'', (''data: {"id":"c1","choices":[{"index":0,"text":" sky'' @ [CHR 0x5C] @ ''nExtra"}]}''), [], ''data: [DONE]''] (Some ''reset'')) =
     ([''The'', '' sky''], Exhausted)\<close>
    unfolding e f .
  from w1' w2 show ?thesis by (rule conjI)
qed

section \<open>Empty fragments\<close>

text \<open>
  The retrieval-augmented and the mock provider never yield an empty fragment.
\<close>

lemma rag_chunks_nonempty: "[] \<notin> set (rag_chunks chunks)"
  by (induction chunks) auto

lemma rag_stream_nonempty: "[] \<notin> set (fst (rag_stream up))"
proof (cases up)
  case (Body chunks ending)
  then show ?thesis
    by (cases ending) (simp_all add: rag_chunks_nonempty rag_error_fragment_def)
qed (simp_all add: rag_error_fragment_def)

lemma mock_stream_nonempty: "[] \<notin> set (fst (mock_stream prompt))"
  by (auto simp: mock_stream_def)

text \<open>
  Claim C7 asks that no provider ever forwards an empty fragment. The local-model
  providers skip an empty text, but not a text that is empty after the truncation at the
  stop marker: for a chunk whose text begins with the newline, here the line
  \<^verbatim>\<open>data: {"choices":[{"text":"\nExtra"}]}\<close>, they yield the empty string as their one
  fragment.
\<close>

theorem stop_marker_first_yields_empty_fragment:
  \<open>llm_stream (map_of [((''{"choices":[{"text":"'' @ [CHR 0x5C] @ ''nExtra"}]}''), JObj [(''choices'', JArr [JObj [(''text'', JStr (CHR 0x0A # ''Extra''))]])])]) TinyLlamaLLM ''q'' (Body [(''data: {"choices":[{"text":"'' @ [CHR 0x5C] @ ''nExtra"}]}'')] None) = ([[]], Exhausted)
   \<and> llm_stream (map_of [((''{"choices":[{"text":"'' @ [CHR 0x5C] @ ''nExtra"}]}''), JObj [(''choices'', JArr [JObj [(''text'', JStr (CHR 0x0A # ''Extra''))]])])]) Llama3_1_8bLLM ''q'' (Body [(''data: {"choices":[{"text":"'' @ [CHR 0x5C] @ ''nExtra"}]}'')] None) = ([[]], Exhausted)\<close>
proof -
  let ?jl = \<open>map_of [((''{"choices":[{"text":"'' @ [CHR 0x5C] @ ''nExtra"}]}''), JObj [(''choices'', JArr [JObj [(''text'', JStr (CHR 0x0A # ''Extra''))]])])]\<close>
  have h: \<open>?jl (''{"choices":[{"text":"'' @ [CHR 0x5C] @ ''nExtra"}]}'') = Some (JObj [(''choices'', JArr [JObj [(''text'', JStr (CHR 0x0A # ''Extra''))]])])\<close> by simp
  have e: \<open>(''data: {"choices":[{"text":"'' @ [CHR 0x5C] @ ''nExtra"}]}'') = ''data: '' @ (''{"choices":[{"text":"'' @ [CHR 0x5C] @ ''nExtra"}]}'')\<close> by simp
  have \<open>stream_lines ?jl [''data: '' @ (''{"choices":[{"text":"'' @ [CHR 0x5C] @ ''nExtra"}]}'')] = ([[]], Return)\<close>
    unfolding stream_lines_data_line [of ?jl \<open>(''{"choices":[{"text":"'' @ [CHR 0x5C] @ ''nExtra"}]}'')\<close> \<open>(CHR 0x0A # ''Extra'')\<close> "[]", OF h] by simp
  then have \<open>local_stream ?jl (Body [(''data: {"choices":[{"text":"'' @ [CHR 0x5C] @ ''nExtra"}]}'')] None) = ([[]], Exhausted)\<close>
    unfolding e local_stream.simps by simp
  then show ?thesis by (simp only: llm_stream.simps)
qed

end
